theory Spec2Isabelle
  imports Complex_Main "HOL-Library.Multiset" "HOL-Library.Char_ord" "HOL-Library.List_Lexorder"
begin

section \<open>Errors\<close>

text \<open>
  Every exception the modelled code raises is a value. \<open>ValueError\<close> carries its message,
  \<open>ValidationError\<close> its message and its code (\<open>serializers.ValidationError(msg, code=...)\<close>);
  \<open>ValidationErrors\<close> is the \<open>ValidationError\<close> a serializer raises for invalid data, with
  the failing fields and the code of each. \<open>IntegrityError\<close> is the store refusing a second
  row with a \<open>unique=True\<close> value, \<open>NotFoundError\<close> the lookup of an object that the scoped
  queryset does not hold (the framework's \<open>Http404\<close>).
\<close>

datatype error =
    ValueError string
  | ValidationError string string
  | ValidationErrors "(string \<times> string) list"
  | IntegrityError
  | NotFoundError

fun is_ValidationError :: "error + 'a \<Rightarrow> bool" where
  "is_ValidationError (Inl (ValidationError m c)) = True"
| "is_ValidationError (Inl (ValidationErrors errs)) = True"
| "is_ValidationError r = False"

section \<open>The user store (core/models.py)\<close>

text \<open>
  \<open>class User\<close>: \<open>email\<close> (unique), \<open>name\<close>, \<open>is_active\<close> (default True), \<open>is_staff\<close>
  (default False); \<open>password\<close> comes from \<open>AbstractBaseUser\<close>, \<open>is_superuser\<close> from
  \<open>PermissionsMixin\<close>. \<open>pk\<close> is \<open>None\<close> until the instance has been saved.
\<close>

record user =
  pk :: "nat option"
  email :: string
  name :: string
  password :: string
  is_active :: bool
  is_staff :: bool
  is_superuser :: bool

text \<open>The user table: its rows in insertion order and the next value of the id sequence.\<close>

record user_db =
  user_rows :: "user list"
  user_next_id :: nat

text \<open>
  \<open>**extra_fields\<close>: the model fields a caller may pass by keyword. \<open>email\<close> and
  \<open>password\<close> are named parameters of \<open>create_user\<close>, so Python binds them there and
  they can never arrive inside \<open>extra_fields\<close>.
\<close>

record extra_fields =
  ef_name :: "string option"
  ef_is_active :: "bool option"
  ef_is_staff :: "bool option"
  ef_is_superuser :: "bool option"

definition no_extra_fields :: extra_fields where
  "no_extra_fields = \<lparr>ef_name = None, ef_is_active = None, ef_is_staff = None, ef_is_superuser = None\<rparr>"

subsection \<open>Strings\<close>

text \<open>
  A string is the list of its characters, each a code below 256. On ASCII text the three
  operations below are Python's \<open>str.strip()\<close>, \<open>str.lower()\<close> and \<open>rsplit('@', 1)\<close>;
  Python's treatment of letters and blanks beyond ASCII is not modelled, and statements that
  rest on \<open>strip\<close> or \<open>lower\<close> are made for ASCII text (\<open>is_ascii\<close>).
\<close>

definition is_ascii :: "string \<Rightarrow> bool" where
  "is_ascii s = list_all (\<lambda>c. (of_char c :: nat) < 128) s"

text \<open>The ASCII whitespace: tab, line feed, vertical tab, form feed, carriage return,
  the four separators 28 to 31, and the blank.\<close>

definition is_space :: "char \<Rightarrow> bool" where
  "is_space c = (let n = (of_char c :: nat) in (9 \<le> n \<and> n \<le> 13) \<or> (28 \<le> n \<and> n \<le> 32))"

definition strip :: "string \<Rightarrow> string" where
  "strip s = rev (dropWhile is_space (rev (dropWhile is_space s)))"

text \<open>ASCII lower-casing of one character.\<close>

definition lower_char :: "char \<Rightarrow> char" where
  "lower_char c =
     (let n = (of_char c :: nat)
      in if 65 \<le> n \<and> n \<le> 90 then char_of (n + 32) else c)"

definition lower :: "string \<Rightarrow> string" where
  "lower s = map lower_char s"

text \<open>\<open>s.rsplit('@', 1)\<close>: the text before and after the last \<open>@\<close>, \<open>None\<close> when there is none.\<close>

fun rsplit_at :: "string \<Rightarrow> (string \<times> string) option" where
  "rsplit_at [] = None"
| "rsplit_at (c # cs) =
     (case rsplit_at cs of
        Some (email_name, domain_part) \<Rightarrow> Some (c # email_name, domain_part)
      | None \<Rightarrow> if c = CHR ''@'' then Some ([], cs) else None)"

subsection \<open>Email normalisation\<close>

text \<open>
  Modelled from the spec: \<open>BaseUserManager.normalize_email\<close> belongs to the framework and is
  not among the sources. The spec (4.1): "Normalizes email (lower-cases the domain portion per
  standard email normalization)". The standard normalisation is the framework's:
  \<^verbatim>\<open>
  email = email or ""
  try:
      email_name, domain_part = email.strip().rsplit("@", 1)
  except ValueError:
      pass
  else:
      email = email_name + "@" + domain_part.lower()
  return email
  \<close>
  The address is trimmed before it is split at its last \<open>@\<close>; an address without \<open>@\<close> is
  returned as it was given, untrimmed; \<open>None\<close> is read as the empty string.
\<close>

definition normalize_email :: "string option \<Rightarrow> string" where
  "normalize_email em =
     (let e = (case em of None \<Rightarrow> [] | Some s \<Rightarrow> s)
      in case rsplit_at (strip e) of
           None \<Rightarrow> e
         | Some (email_name, domain_part) \<Rightarrow> email_name @ ''@'' @ lower domain_part)"

subsection \<open>Model instances and the table\<close>

text \<open>\<open>self.model(email=..., **extra_fields)\<close>: a fresh, unsaved instance with the field defaults.\<close>

definition model :: "string \<Rightarrow> extra_fields \<Rightarrow> user" where
  "model em extra =
     \<lparr>pk = None,
      email = em,
      name = (case ef_name extra of None \<Rightarrow> [] | Some n \<Rightarrow> n),
      password = [],
      is_active = (case ef_is_active extra of None \<Rightarrow> True | Some b \<Rightarrow> b),
      is_staff = (case ef_is_staff extra of None \<Rightarrow> False | Some b \<Rightarrow> b),
      is_superuser = (case ef_is_superuser extra of None \<Rightarrow> False | Some b \<Rightarrow> b)\<rparr>"

text \<open>
  \<open>user.set_password(raw)\<close> stores \<open>make_password(raw)\<close>. The hashing facility is the
  framework's and is a parameter of the model: it maps the raw password (\<open>None\<close> when the
  caller gave none) to the encoded string that is stored.
\<close>

definition set_password :: "(string option \<Rightarrow> string) \<Rightarrow> user \<Rightarrow> string option \<Rightarrow> user" where
  "set_password make_password u raw = u\<lparr>password := make_password raw\<rparr>"

text \<open>
  \<open>user.save()\<close>: an unsaved instance is inserted under the next id, a saved one replaces
  its row. \<open>email\<close> is \<open>unique=True\<close>: a second row with an email already stored is refused
  and the table is left as it was.
\<close>

definition save :: "user_db \<Rightarrow> user \<Rightarrow> (error + user) \<times> user_db" where
  "save db u =
     (case pk u of
        None \<Rightarrow>
          if list_ex (\<lambda>r. email r = email u) (user_rows db) then (Inl IntegrityError, db)
          else
            let u' = u\<lparr>pk := Some (user_next_id db)\<rparr>
            in (Inr u', \<lparr>user_rows = user_rows db @ [u'], user_next_id = Suc (user_next_id db)\<rparr>)
      | Some i \<Rightarrow>
          if list_ex (\<lambda>r. email r = email u \<and> pk r \<noteq> Some i) (user_rows db)
          then (Inl IntegrityError, db)
          else (Inr u, db\<lparr>user_rows := map (\<lambda>r. if pk r = Some i then u else r) (user_rows db)\<rparr>))"

subsection \<open>UserManager\<close>

text \<open>\<open>not email\<close>: true of \<open>None\<close> and of the empty string.\<close>

fun falsy :: "string option \<Rightarrow> bool" where
  "falsy None = True"
| "falsy (Some s) = (s = [])"

definition create_user ::
  "(string option \<Rightarrow> string) \<Rightarrow> user_db \<Rightarrow> string option \<Rightarrow> string option \<Rightarrow> extra_fields
     \<Rightarrow> (error + user) \<times> user_db" where
  "create_user make_password db em pw extra =
     (if falsy em then (Inl (ValueError ''User must have an email address.''), db)
      else
        let user = model (normalize_email em) extra;
            user = set_password make_password user pw
        in save db user)"

definition create_superuser ::
  "(string option \<Rightarrow> string) \<Rightarrow> user_db \<Rightarrow> string option \<Rightarrow> string option \<Rightarrow> extra_fields
     \<Rightarrow> (error + user) \<times> user_db" where
  "create_superuser make_password db em pw extra =
     (case create_user make_password db em pw no_extra_fields of
        (Inl e, db') \<Rightarrow> (Inl e, db')
      | (Inr user, db') \<Rightarrow> save db' (user\<lparr>is_staff := True, is_superuser := True\<rparr>))"

section \<open>The user serializers (user/serializers.py)\<close>

text \<open>The request data and the validated data of \<open>UserSerializer\<close>: the keys of \<open>Meta.fields\<close>.\<close>

record user_data =
  d_email :: "string option"
  d_password :: "string option"
  d_name :: "string option"

subsection \<open>Field validation\<close>

text \<open>
  The serializer framework validates each declared field before \<open>create\<close> or \<open>update\<close> runs
  ("Only called when the validation is successful"). A character field trims the surrounding
  whitespace of its value, refuses a blank value, and then applies its length bounds. The bounds
  are the ones the sources declare: \<open>min_length = 5\<close> for \<open>password\<close> (\<open>extra_kwargs\<close>),
  \<open>max_length = 255\<close> for \<open>email\<close> and \<open>name\<close> (the model fields); \<open>password\<close> also has
  the \<open>max_length = 128\<close> of the \<open>AbstractBaseUser\<close> field it is built from.
\<close>

definition CharField ::
  "nat option \<Rightarrow> nat option \<Rightarrow> string \<Rightarrow> string + string" where
  "CharField min_length max_length data =
     (let v = strip data
      in if v = [] then Inl ''blank''
         else if (case min_length of None \<Rightarrow> False | Some n \<Rightarrow> length v < n) then Inl ''min_length''
         else if (case max_length of None \<Rightarrow> False | Some n \<Rightarrow> n < length v) then Inl ''max_length''
         else Inr v)"

text \<open>
  \<open>email\<close> is an \<open>EmailField(max_length=255, unique=True)\<close>: a character field whose value
  must pass the framework's address syntax check (the parameter \<open>email_validator\<close>) and must
  not be the email of another stored user.
\<close>

definition EmailField ::
  "(string \<Rightarrow> bool) \<Rightarrow> user_db \<Rightarrow> user option \<Rightarrow> string \<Rightarrow> string + string" where
  "EmailField email_validator db instance data =
     (case CharField None (Some 255) data of
        Inl code \<Rightarrow> Inl code
      | Inr v \<Rightarrow>
          if \<not> email_validator v then Inl ''invalid''
          else if list_ex (\<lambda>r. email r = v \<and> Some (pk r) \<noteq> map_option pk instance) (user_rows db)
          then Inl ''unique''
          else Inr v)"

text \<open>A key that is absent is an error unless the update is partial (\<open>PATCH\<close>).\<close>

definition run_field ::
  "bool \<Rightarrow> (string \<Rightarrow> string + string) \<Rightarrow> string option \<Rightarrow> string + string option" where
  "run_field partial field data =
     (case data of
        None \<Rightarrow> if partial then Inr None else Inl ''required''
      | Some v \<Rightarrow> (case field v of Inl code \<Rightarrow> Inl code | Inr v' \<Rightarrow> Inr (Some v')))"

fun field_errors :: "string \<Rightarrow> string + 'a \<Rightarrow> (string \<times> string) list" where
  "field_errors key (Inl code) = [(key, code)]"
| "field_errors key (Inr v) = []"

definition UserSerializer_run_validation ::
  "(string \<Rightarrow> bool) \<Rightarrow> user_db \<Rightarrow> user option \<Rightarrow> bool \<Rightarrow> user_data
     \<Rightarrow> (string \<times> string) list + user_data" where
  "UserSerializer_run_validation email_validator db instance partial data =
     (let e = run_field partial (EmailField email_validator db instance) (d_email data);
          p = run_field partial (CharField (Some 5) (Some 128)) (d_password data);
          n = run_field partial (CharField None (Some 255)) (d_name data)
      in case (e, p, n) of
           (Inr e', Inr p', Inr n') \<Rightarrow> Inr \<lparr>d_email = e', d_password = p', d_name = n'\<rparr>
         | _ \<Rightarrow> Inl (field_errors ''email'' e @ field_errors ''password'' p @ field_errors ''name'' n))"

subsection \<open>UserSerializer\<close>

text \<open>\<open>create\<close>: \<open>get_user_model().objects.create_user(**validated_data)\<close>.\<close>

definition UserSerializer_create ::
  "(string option \<Rightarrow> string) \<Rightarrow> user_db \<Rightarrow> user_data \<Rightarrow> (error + user) \<times> user_db" where
  "UserSerializer_create make_password db validated_data =
     create_user make_password db (d_email validated_data) (d_password validated_data)
       (no_extra_fields\<lparr>ef_name := d_name validated_data\<rparr>)"

text \<open>\<open>super().update\<close>: every key of the validated data is set on the instance, which is saved.\<close>

definition ModelSerializer_update :: "user_db \<Rightarrow> user \<Rightarrow> user_data \<Rightarrow> (error + user) \<times> user_db" where
  "ModelSerializer_update db instance validated_data =
     save db
       (instance\<lparr>email := (case d_email validated_data of None \<Rightarrow> email instance | Some e \<Rightarrow> e),
                 name := (case d_name validated_data of None \<Rightarrow> name instance | Some n \<Rightarrow> n)\<rparr>)"

definition UserSerializer_update ::
  "(string option \<Rightarrow> string) \<Rightarrow> user_db \<Rightarrow> user \<Rightarrow> user_data \<Rightarrow> (error + user) \<times> user_db" where
  "UserSerializer_update make_password db instance validated_data =
     (let password = d_password validated_data
      in case ModelSerializer_update db instance (validated_data\<lparr>d_password := None\<rparr>) of
           (Inl e, db') \<Rightarrow> (Inl e, db')
         | (Inr user, db') \<Rightarrow>
             if \<not> falsy password then save db' (set_password make_password user password)
             else (Inr user, db'))"

text \<open>
  \<open>is_valid(raise_exception=True)\<close> followed by \<open>save()\<close>: invalid data raises and neither
  \<open>create\<close> nor \<open>update\<close> is called; valid data goes to \<open>create\<close> when the serializer has no
  instance and to \<open>update\<close> when it has one.
\<close>

definition UserSerializer_save ::
  "(string option \<Rightarrow> string) \<Rightarrow> (string \<Rightarrow> bool) \<Rightarrow> user_db \<Rightarrow> user option \<Rightarrow> bool \<Rightarrow> user_data
     \<Rightarrow> (error + user) \<times> user_db" where
  "UserSerializer_save make_password email_validator db instance partial data =
     (case UserSerializer_run_validation email_validator db instance partial data of
        Inl errors \<Rightarrow> (Inl (ValidationErrors errors), db)
      | Inr validated_data \<Rightarrow>
          (case instance of
             None \<Rightarrow> UserSerializer_create make_password db validated_data
           | Some u \<Rightarrow> UserSerializer_update make_password db u validated_data))"

subsection \<open>AuthTokenSerializer\<close>

text \<open>
  Modelled from the spec: \<open>django.contrib.auth.authenticate\<close> belongs to the framework and is
  not among the sources. The spec (4.1): "fails (returns no user) if email unknown or password
  hash mismatch". \<open>check_password raw encoded\<close> is the verify half of the hashing facility.
  A call without a username or without a password returns no user, and so does the framework's
  model backend for a user that is not active.
\<close>

definition authenticate ::
  "(string \<Rightarrow> string \<Rightarrow> bool) \<Rightarrow> user_db \<Rightarrow> string option \<Rightarrow> string option \<Rightarrow> user option" where
  "authenticate check_password db username pw =
     (case (username, pw) of
        (Some e, Some p) \<Rightarrow>
          (case find (\<lambda>u. email u = e) (user_rows db) of
             None \<Rightarrow> None
           | Some u \<Rightarrow> if check_password p (password u) \<and> is_active u then Some u else None)
      | _ \<Rightarrow> None)"

text \<open>The \<open>attrs\<close> dictionary: the two declared fields, and \<open>user\<close> once \<open>validate\<close> has set it.\<close>

record attrs =
  a_email :: "string option"
  a_password :: "string option"
  a_user :: "user option"

definition AuthTokenSerializer_validate ::
  "(string \<Rightarrow> string \<Rightarrow> bool) \<Rightarrow> user_db \<Rightarrow> attrs \<Rightarrow> error + attrs" where
  "AuthTokenSerializer_validate check_password db attrs =
     (let em = a_email attrs;
          pw = a_password attrs;
          user = authenticate check_password db em pw
      in case user of
           None \<Rightarrow> Inl (ValidationError ''Unable to authenticate with provided credentials.'' ''authorization'')
         | Some u \<Rightarrow> Inr (attrs\<lparr>a_user := Some u\<rparr>))"

section \<open>Recipes, tags and ingredients\<close>

text \<open>
  Modelled from the spec: the views import \<open>Recipe\<close>, \<open>Tag\<close> and \<open>Ingredient\<close> from
  \<open>core.models\<close>, but the model classes are not among the sources. The spec (3):
  "Tag: {name (string), owner: User}", "Ingredient: {name (string), owner: User}",
  "Recipe: {title, description, time_minutes (positive integer), price (decimal, non-negative),
  link (optional URL string), owner: User, tags: set of Tag, ingredients: set of Ingredient}".
  The owner is the \<open>user\<close> field the views filter on, the \<open>id\<close> the key they order recipes
  by. \<open>Tag\<close> and \<open>Ingredient\<close> rows have the same shape; users and attached rows are
  referred to by their id.
\<close>

record attr =
  attr_id :: nat
  attr_name :: string
  attr_user :: nat

record recipe =
  recipe_id :: nat
  recipe_user :: nat
  title :: string
  description :: string
  time_minutes :: int
  price :: rat
  link :: "string option"
  tags :: "nat set"
  ingredients :: "nat set"

text \<open>A registry is one table of \<open>attr\<close> rows with its id sequence.\<close>

record attr_registry =
  attr_rows :: "attr list"
  attr_next_id :: nat

record recipe_db =
  tag_registry :: attr_registry
  ingredient_registry :: attr_registry
  recipe_rows :: "recipe list"
  recipe_next_id :: nat

section \<open>The views (recipe/views.py)\<close>

text \<open>
  \<open>queryset.filter(user=u)\<close> keeps the rows of \<open>u\<close>; \<open>order_by('-key')\<close> sorts by the key,
  largest first. Rows with equal keys stay in the order of the table (the sort is stable).
\<close>

definition order_by_desc :: "('a \<Rightarrow> 'k::linorder) \<Rightarrow> 'a list \<Rightarrow> 'a list" where
  "order_by_desc key rows = rev (sort_key key (rev rows))"

definition RecipeViewSet_get_queryset :: "recipe list \<Rightarrow> nat \<Rightarrow> recipe list" where
  "RecipeViewSet_get_queryset queryset request_user =
     order_by_desc recipe_id (filter (\<lambda>r. recipe_user r = request_user) queryset)"

definition BaseRecipeAttrViewSet_get_queryset :: "attr list \<Rightarrow> nat \<Rightarrow> attr list" where
  "BaseRecipeAttrViewSet_get_queryset queryset request_user =
     order_by_desc attr_name (filter (\<lambda>a. attr_user a = request_user) queryset)"

text \<open>
  The list action returns the view's queryset; the detail actions look the object up by id in
  that same queryset and fail as not found when it is not there.
\<close>

definition get_object :: "('a \<Rightarrow> nat) \<Rightarrow> 'a list \<Rightarrow> nat \<Rightarrow> error + 'a" where
  "get_object ident queryset k =
     (case find (\<lambda>r. ident r = k) queryset of None \<Rightarrow> Inl NotFoundError | Some r \<Rightarrow> Inr r)"

definition list_recipes :: "recipe_db \<Rightarrow> nat \<Rightarrow> recipe list" where
  "list_recipes db request_user = RecipeViewSet_get_queryset (recipe_rows db) request_user"

definition retrieve_recipe :: "recipe_db \<Rightarrow> nat \<Rightarrow> nat \<Rightarrow> error + recipe" where
  "retrieve_recipe db request_user k =
     get_object recipe_id (RecipeViewSet_get_queryset (recipe_rows db) request_user) k"

text \<open>\<open>TagViewSet\<close>: \<open>queryset = Tag.objects.all()\<close>; \<open>IngredientViewSet\<close>: \<open>Ingredient.objects.all()\<close>.\<close>

definition list_tags :: "recipe_db \<Rightarrow> nat \<Rightarrow> attr list" where
  "list_tags db request_user =
     BaseRecipeAttrViewSet_get_queryset (attr_rows (tag_registry db)) request_user"

definition list_ingredients :: "recipe_db \<Rightarrow> nat \<Rightarrow> attr list" where
  "list_ingredients db request_user =
     BaseRecipeAttrViewSet_get_queryset (attr_rows (ingredient_registry db)) request_user"

definition get_tag :: "recipe_db \<Rightarrow> nat \<Rightarrow> nat \<Rightarrow> error + attr" where
  "get_tag db request_user k =
     get_object attr_id (BaseRecipeAttrViewSet_get_queryset (attr_rows (tag_registry db)) request_user) k"

definition get_ingredient :: "recipe_db \<Rightarrow> nat \<Rightarrow> nat \<Rightarrow> error + attr" where
  "get_ingredient db request_user k =
     get_object attr_id
       (BaseRecipeAttrViewSet_get_queryset (attr_rows (ingredient_registry db)) request_user) k"

text \<open>Rows that enter the tables: \<open>Model.objects.create(...)\<close> appends one.\<close>

definition add_recipe_row :: "recipe \<Rightarrow> recipe_db \<Rightarrow> recipe_db" where
  "add_recipe_row r db = db\<lparr>recipe_rows := recipe_rows db @ [r]\<rparr>"

definition add_attr_row :: "attr \<Rightarrow> attr_registry \<Rightarrow> attr_registry" where
  "add_attr_row a reg = reg\<lparr>attr_rows := attr_rows reg @ [a]\<rparr>"

definition add_tag_row :: "attr \<Rightarrow> recipe_db \<Rightarrow> recipe_db" where
  "add_tag_row a db = db\<lparr>tag_registry := add_attr_row a (tag_registry db)\<rparr>"

definition add_ingredient_row :: "attr \<Rightarrow> recipe_db \<Rightarrow> recipe_db" where
  "add_ingredient_row a db = db\<lparr>ingredient_registry := add_attr_row a (ingredient_registry db)\<rparr>"

section \<open>The recipe write pipeline\<close>

text \<open>
  Modelled from the spec: \<open>recipe/serializers.py\<close>, which holds the recipe serializer with its
  \<open>_get_or_create\<close> helpers, \<open>create\<close> and \<open>update\<close>, is not among the sources. The spec (4.2):
  for each name of the supplied sequence, "look up an existing entity of kind where
  owner == current_user AND name == name"; "if found, reuse it; if not found, create a new one
  owned by current_user with that name"; "attach the resulting reference to the Recipe's
  relevant set".
\<close>

definition lookup :: "nat \<Rightarrow> string \<Rightarrow> attr_registry \<Rightarrow> attr option" where
  "lookup owner nm reg = find (\<lambda>a. attr_user a = owner \<and> attr_name a = nm) (attr_rows reg)"

definition get_or_create_one :: "nat \<Rightarrow> string \<Rightarrow> attr_registry \<Rightarrow> attr \<times> attr_registry" where
  "get_or_create_one owner nm reg =
     (case lookup owner nm reg of
        Some a \<Rightarrow> (a, reg)
      | None \<Rightarrow>
          let a = \<lparr>attr_id = attr_next_id reg, attr_name = nm, attr_user = owner\<rparr>
          in (a, \<lparr>attr_rows = attr_rows reg @ [a], attr_next_id = Suc (attr_next_id reg)\<rparr>))"

fun get_or_create :: "nat \<Rightarrow> string list \<Rightarrow> attr_registry \<Rightarrow> nat set \<Rightarrow> nat set \<times> attr_registry" where
  "get_or_create owner [] reg attached = (attached, reg)"
| "get_or_create owner (nm # names) reg attached =
     (case get_or_create_one owner nm reg of
        (a, reg') \<Rightarrow> get_or_create owner names reg' (insert (attr_id a) attached))"

text \<open>The scalar fields of a create request, and of a partial update (a key may be absent).\<close>

record recipe_fields =
  f_title :: string
  f_description :: string
  f_time_minutes :: int
  f_price :: rat
  f_link :: "string option"

record partial_fields =
  p_title :: "string option"
  p_description :: "string option"
  p_time_minutes :: "int option"
  p_price :: "rat option"
  p_link :: "string option option"

text \<open>
  Modelled from the spec (4.2, 8): a write "fails with ValidationError if time_minutes <= 0 or
  price < 0".
\<close>

definition range_errors :: "int option \<Rightarrow> rat option \<Rightarrow> (string \<times> string) list" where
  "range_errors tm pr =
     (case tm of None \<Rightarrow> [] | Some t \<Rightarrow> if t \<le> 0 then [(''time_minutes'', ''min_value'')] else []) @
     (case pr of None \<Rightarrow> [] | Some p \<Rightarrow> if p < 0 then [(''price'', ''min_value'')] else [])"

text \<open>
  Modelled from the spec (4.2): create "builds the Recipe from scalar fields, persists it, then
  runs the get-or-create step for any supplied tags/ingredients lists, attaching results.
  Returns the fully populated Recipe."
\<close>

definition create_recipe ::
  "recipe_db \<Rightarrow> nat \<Rightarrow> recipe_fields \<Rightarrow> string list option \<Rightarrow> string list option
     \<Rightarrow> (error + recipe) \<times> recipe_db" where
  "create_recipe db owner flds tag_names ingredient_names =
     (case range_errors (Some (f_time_minutes flds)) (Some (f_price flds)) of
        e # es \<Rightarrow> (Inl (ValidationErrors (e # es)), db)
      | [] \<Rightarrow>
          let (ts, treg) = (case tag_names of
                              None \<Rightarrow> ({}, tag_registry db)
                            | Some names \<Rightarrow> get_or_create owner names (tag_registry db) {});
              (ings, ireg) = (case ingredient_names of
                              None \<Rightarrow> ({}, ingredient_registry db)
                            | Some names \<Rightarrow> get_or_create owner names (ingredient_registry db) {});
              r = \<lparr>recipe_id = recipe_next_id db, recipe_user = owner,
                   title = f_title flds, description = f_description flds,
                   time_minutes = f_time_minutes flds, price = f_price flds,
                   link = f_link flds, tags = ts, ingredients = ings\<rparr>
          in (Inr r,
              \<lparr>tag_registry = treg, ingredient_registry = ireg,
               recipe_rows = recipe_rows db @ [r], recipe_next_id = Suc (recipe_next_id db)\<rparr>))"

text \<open>
  Modelled from the spec (4.2, 6): update "fails with NotFoundError if no Recipe with that id is
  owned by owner"; "if tags or ingredients keys are present in the update payload, clears the
  Recipe's current set for that relation first, then runs get-or-create and re-attaches";
  "scalar fields not present in the payload are left untouched".
\<close>

definition apply_partial :: "partial_fields \<Rightarrow> recipe \<Rightarrow> recipe" where
  "apply_partial pf r =
     r\<lparr>title := (case p_title pf of None \<Rightarrow> title r | Some v \<Rightarrow> v),
       description := (case p_description pf of None \<Rightarrow> description r | Some v \<Rightarrow> v),
       time_minutes := (case p_time_minutes pf of None \<Rightarrow> time_minutes r | Some v \<Rightarrow> v),
       price := (case p_price pf of None \<Rightarrow> price r | Some v \<Rightarrow> v),
       link := (case p_link pf of None \<Rightarrow> link r | Some v \<Rightarrow> v)\<rparr>"

definition update_recipe ::
  "recipe_db \<Rightarrow> nat \<Rightarrow> nat \<Rightarrow> partial_fields \<Rightarrow> string list option \<Rightarrow> string list option
     \<Rightarrow> (error + recipe) \<times> recipe_db" where
  "update_recipe db rid owner pf tag_names ingredient_names =
     (case find (\<lambda>r. recipe_id r = rid \<and> recipe_user r = owner) (recipe_rows db) of
        None \<Rightarrow> (Inl NotFoundError, db)
      | Some r0 \<Rightarrow>
          (case range_errors (p_time_minutes pf) (p_price pf) of
             e # es \<Rightarrow> (Inl (ValidationErrors (e # es)), db)
           | [] \<Rightarrow>
               let r1 = apply_partial pf r0;
                   (ts, treg) = (case tag_names of
                                   None \<Rightarrow> (tags r1, tag_registry db)
                                 | Some names \<Rightarrow> get_or_create owner names (tag_registry db) {});
                   (ings, ireg) = (case ingredient_names of
                                   None \<Rightarrow> (ingredients r1, ingredient_registry db)
                                 | Some names \<Rightarrow> get_or_create owner names (ingredient_registry db) {});
                   r2 = r1\<lparr>tags := ts, ingredients := ings\<rparr>
               in (Inr r2,
                   db\<lparr>tag_registry := treg, ingredient_registry := ireg,
                      recipe_rows := map (\<lambda>r. if recipe_id r = rid then r2 else r) (recipe_rows db)\<rparr>)))"

text \<open>The names a user owns in a registry.\<close>

definition own_names :: "nat \<Rightarrow> attr_registry \<Rightarrow> string set" where
  "own_names owner reg = set (map attr_name (filter (\<lambda>a. attr_user a = owner) (attr_rows reg)))"

section \<open>Example data\<close>

text \<open>
  A stand-in for the hashing facility (any function will do where one is a parameter), an
  empty user table, one with a registered user, and small recipe tables.
\<close>

definition demo_make_password :: "string option \<Rightarrow> string" where
  "demo_make_password raw = (case raw of None \<Rightarrow> ''!'' | Some p \<Rightarrow> ''pbkdf2$'' @ rev p)"

definition demo_check_password :: "string \<Rightarrow> string \<Rightarrow> bool" where
  "demo_check_password raw encoded = (encoded = demo_make_password (Some raw))"

definition empty_user_db :: user_db where
  "empty_user_db = \<lparr>user_rows = [], user_next_id = 1\<rparr>"

definition registered_user :: user where
  "registered_user =
     \<lparr>pk = Some 1, email = ''user@example.com'', name = ''Test Name'',
      password = ''pbkdf2$321ssaptset'', is_active = True, is_staff = False, is_superuser = False\<rparr>"

definition one_user_db :: user_db where
  "one_user_db = \<lparr>user_rows = [registered_user], user_next_id = 2\<rparr>"

definition empty_recipe_db :: recipe_db where
  "empty_recipe_db =
     \<lparr>tag_registry = \<lparr>attr_rows = [], attr_next_id = 1\<rparr>,
      ingredient_registry = \<lparr>attr_rows = [], attr_next_id = 1\<rparr>,
      recipe_rows = [], recipe_next_id = 1\<rparr>"

definition kale :: attr where
  "kale = \<lparr>attr_id = 1, attr_name = ''Kale'', attr_user = 1\<rparr>"

definition vanilla :: attr where
  "vanilla = \<lparr>attr_id = 2, attr_name = ''Vanilla'', attr_user = 1\<rparr>"

definition salt :: attr where
  "salt = \<lparr>attr_id = 3, attr_name = ''Salt'', attr_user = 2\<rparr>"

definition tacos_fields :: recipe_fields where
  "tacos_fields =
     \<lparr>f_title = ''Cauliflower Tacos'', f_description = [], f_time_minutes = 60,
      f_price = 43 / 10, f_link = None\<rparr>"

definition soup_fields :: recipe_fields where
  "soup_fields =
     \<lparr>f_title = ''Vietnamese Soup'', f_description = [], f_time_minutes = 40,
      f_price = 51 / 20, f_link = None\<rparr>"

definition tacos :: recipe where
  "tacos =
     \<lparr>recipe_id = 1, recipe_user = 1, title = ''Cauliflower Tacos'', description = [],
      time_minutes = 60, price = 43 / 10, link = None, tags = {}, ingredients = {1, 2}\<rparr>"

definition soup :: recipe where
  "soup =
     \<lparr>recipe_id = 2, recipe_user = 2, title = ''Vietnamese Soup'', description = [],
      time_minutes = 40, price = 51 / 20, link = None, tags = {}, ingredients = {3}\<rparr>"

definition kale_curry :: recipe where
  "kale_curry =
     \<lparr>recipe_id = 3, recipe_user = 1, title = ''Kale Curry'', description = [],
      time_minutes = 25, price = 6, link = None, tags = {}, ingredients = {1}\<rparr>"

definition stew :: recipe where
  "stew =
     \<lparr>recipe_id = 4, recipe_user = 2, title = ''Salt Stew'', description = [],
      time_minutes = 90, price = 3, link = None, tags = {}, ingredients = {3}\<rparr>"

definition two_users_db :: recipe_db where
  "two_users_db =
     \<lparr>tag_registry = \<lparr>attr_rows = [], attr_next_id = 1\<rparr>,
      ingredient_registry = \<lparr>attr_rows = [kale, vanilla, salt], attr_next_id = 4\<rparr>,
      recipe_rows = [tacos, soup, kale_curry, stew], recipe_next_id = 5\<rparr>"

definition no_fields :: partial_fields where
  "no_fields =
     \<lparr>p_title = None, p_description = None, p_time_minutes = None, p_price = None, p_link = None\<rparr>"

section \<open>Properties of the user store\<close>

lemma save_new:
  "pk u = None \<Longrightarrow> save db u = (Inr u', db') \<Longrightarrow>
     u' = u\<lparr>pk := Some (user_next_id db)\<rparr> \<and> user_rows db' = user_rows db @ [u']
     \<and> user_next_id db' = Suc (user_next_id db)"
  by (auto simp: save_def Let_def split: if_splits)

lemma save_new_ok:
  "pk u = None \<Longrightarrow> \<not> list_ex (\<lambda>r. email r = email u) (user_rows db) \<Longrightarrow>
     \<exists>u' db'. save db u = (Inr u', db')"
  by (simp add: save_def Let_def)

lemma create_user_save:
  assumes "em \<noteq> []" and "create_user make_password db (Some em) pw extra = (Inr u, db')"
  shows "u = (set_password make_password (model (normalize_email (Some em)) extra) pw)
               \<lparr>pk := Some (user_next_id db)\<rparr>"
    and "user_rows db' = user_rows db @ [u]"
proof -
  have s: "save db (set_password make_password (model (normalize_email (Some em)) extra) pw) = (Inr u, db')"
    using assms by (simp add: create_user_def)
  have p: "pk (set_password make_password (model (normalize_email (Some em)) extra) pw) = None"
    by (simp add: set_password_def model_def)
  from save_new[OF p s]
  show "u = (set_password make_password (model (normalize_email (Some em)) extra) pw)
               \<lparr>pk := Some (user_next_id db)\<rparr>"
    and "user_rows db' = user_rows db @ [u]"
    by simp_all
qed

text \<open>
  C5, as the code has it: \<open>create_user\<close> with an email that is missing (\<open>None\<close>) or empty
  fails with the \<open>ValueError\<close> "User must have an email address." and leaves the user table
  as it was, so no user is persisted.
\<close>

theorem create_user_empty_email_ValueError:
  "em = None \<or> em = Some [] \<Longrightarrow>
     create_user make_password db em pw extra
       = (Inl (ValueError ''User must have an email address.''), db)"
  by (auto simp: create_user_def)

theorem create_user_empty_email_ValueError_witness:
  "create_user demo_make_password one_user_db (Some []) (Some ''testpass123'') no_extra_fields
     = (Inl (ValueError ''User must have an email address.''), one_user_db)"
  using create_user_empty_email_ValueError
          [of "Some []" demo_make_password one_user_db "Some ''testpass123''" no_extra_fields]
  by simp

text \<open>
  C5, as the claim states it, fails: the error of \<open>create_user\<close> with an empty email is not a
  \<open>ValidationError\<close>.
\<close>

theorem create_user_empty_email_counterexample:
  "\<not> is_ValidationError
        (fst (create_user demo_make_password one_user_db (Some []) (Some ''testpass123'')
                no_extra_fields))"
  by (simp add: create_user_def)

text \<open>
  C6: for a non-empty email and any password, whatever the extra fields, \<open>create_user\<close>
  succeeds when the normalised email is not stored yet, and every user it returns is the row
  appended to the table and has as its password field the hashing facility's output for the
  supplied password; so the field differs from the supplied password wherever the hash does.
\<close>

theorem create_user_stores_hash:
  assumes "em \<noteq> []"
  shows "(\<not> list_ex (\<lambda>r. email r = normalize_email (Some em)) (user_rows db) \<longrightarrow>
            (\<exists>u db'. create_user make_password db (Some em) pw extra = (Inr u, db')))
       \<and> (\<forall>u db'. create_user make_password db (Some em) pw extra = (Inr u, db') \<longrightarrow>
            password u = make_password pw \<and> user_rows db' = user_rows db @ [u]
            \<and> (\<forall>raw. pw = Some raw \<and> make_password pw \<noteq> raw \<longrightarrow> password u \<noteq> raw))"
proof (intro conjI impI allI)
  assume "\<not> list_ex (\<lambda>r. email r = normalize_email (Some em)) (user_rows db)"
  then show "\<exists>u db'. create_user make_password db (Some em) pw extra = (Inr u, db')"
    using assms save_new_ok[of "set_password make_password (model (normalize_email (Some em)) extra) pw" db]
    by (simp add: create_user_def set_password_def model_def)
next
  fix u db' assume a: "create_user make_password db (Some em) pw extra = (Inr u, db')"
  from create_user_save(1)[OF assms a] show h: "password u = make_password pw"
    by (simp add: set_password_def model_def)
  from create_user_save(2)[OF assms a] show "user_rows db' = user_rows db @ [u]" .
  fix raw assume "pw = Some raw \<and> make_password pw \<noteq> raw"
  with h show "password u \<noteq> raw" by auto
qed

theorem create_user_stores_hash_witness:
  "create_user demo_make_password empty_user_db (Some ''user@example.com'') (Some ''testpass123'')
       (no_extra_fields\<lparr>ef_name := Some ''Test Name''\<rparr>)
     = (Inr registered_user, one_user_db)
   \<and> password registered_user = demo_make_password (Some ''testpass123'')
   \<and> password registered_user \<noteq> ''testpass123''"
proof -
  have run: "create_user demo_make_password empty_user_db (Some ''user@example.com'')
               (Some ''testpass123'') (no_extra_fields\<lparr>ef_name := Some ''Test Name''\<rparr>)
             = (Inr registered_user, one_user_db)"
    by code_simp
  have ne: "''user@example.com'' \<noteq> []" by simp
  have "demo_make_password (Some ''testpass123'') \<noteq> ''testpass123''"
    by (simp add: demo_make_password_def)
  with create_user_stores_hash[OF ne, THEN conjunct2, rule_format, OF run] run
  show ?thesis by simp
qed

lemma rsplit_at_no: "CHR ''@'' \<notin> set s \<Longrightarrow> rsplit_at s = None"
  by (induction s) auto

lemma rsplit_at_last: "CHR ''@'' \<notin> set d \<Longrightarrow> rsplit_at (n @ CHR ''@'' # d) = Some (n, d)"
  by (induction n) (auto simp: rsplit_at_no)

lemma rsplit_at_Some: "rsplit_at s = Some (n, d) \<Longrightarrow> s = n @ CHR ''@'' # d"
  by (induction s arbitrary: n d) (auto split: option.splits if_splits)

lemma set_strip: "set (strip s) \<subseteq> set s"
proof
  fix c assume "c \<in> set (strip s)"
  then have "c \<in> set (dropWhile is_space (rev (dropWhile is_space s)))"
    by (simp add: strip_def)
  then have "c \<in> set (rev (dropWhile is_space s))" by (rule set_dropWhileD)
  then have "c \<in> set (dropWhile is_space s)" by simp
  then show "c \<in> set s" by (rule set_dropWhileD)
qed

lemma normalize_email_domain:
  "strip s = n @ CHR ''@'' # d \<Longrightarrow> CHR ''@'' \<notin> set d \<Longrightarrow>
     normalize_email (Some s) = n @ CHR ''@'' # lower d"
  by (simp add: normalize_email_def rsplit_at_last)

lemma normalize_email_no_domain:
  assumes "CHR ''@'' \<notin> set s"
  shows "normalize_email (Some s) = s"
proof -
  have "CHR ''@'' \<notin> set (strip s)" using assms set_strip by blast
  then show ?thesis by (simp add: normalize_email_def rsplit_at_no)
qed

text \<open>
  C7, as the code has it: for a non-empty email of ASCII text, the user that \<open>create_user\<close>
  returns and stores has as its email the given one with the surrounding whitespace removed,
  the part after the last \<open>@\<close> lower-cased and the part before it kept as it is; an email
  without \<open>@\<close> is stored exactly as given.
\<close>

theorem create_user_normalizes_email:
  assumes "em \<noteq> []" and "is_ascii em"
      and "create_user make_password db (Some em) pw extra = (Inr u, db')"
  shows "(\<forall>email_name domain_part.
            strip em = email_name @ ''@'' @ domain_part \<and> CHR ''@'' \<notin> set domain_part \<longrightarrow>
            email u = email_name @ ''@'' @ lower domain_part)
       \<and> (CHR ''@'' \<notin> set em \<longrightarrow> email u = em)
       \<and> user_rows db' = user_rows db @ [u]"
proof -
  have e: "email u = normalize_email (Some em)"
    using create_user_save(1)[OF assms(1,3)] by (simp add: set_password_def model_def)
  have "\<forall>email_name domain_part.
            strip em = email_name @ ''@'' @ domain_part \<and> CHR ''@'' \<notin> set domain_part \<longrightarrow>
            email u = email_name @ ''@'' @ lower domain_part"
    using e by (auto simp: normalize_email_domain)
  moreover have "CHR ''@'' \<notin> set em \<longrightarrow> email u = em"
    using e normalize_email_no_domain by simp
  ultimately show ?thesis
    using create_user_save(2)[OF assms(1,3)] by blast
qed

theorem create_user_normalizes_email_witness:
  "(\<exists>u db'. create_user demo_make_password empty_user_db (Some '' Ws@EXAMPLE.com '')
               (Some ''testpass123'') no_extra_fields = (Inr u, db')
           \<and> email u = ''Ws@example.com'' \<and> user_rows db' = [u])"
proof -
  let ?u = "\<lparr>pk = Some 1, email = ''Ws@example.com'', name = [],
             password = ''pbkdf2$321ssaptset'', is_active = True, is_staff = False,
             is_superuser = False\<rparr>"
  let ?db = "\<lparr>user_rows = [?u], user_next_id = 2\<rparr>"
  have run: "create_user demo_make_password empty_user_db (Some '' Ws@EXAMPLE.com '')
               (Some ''testpass123'') no_extra_fields = (Inr ?u, ?db)"
    by code_simp
  have ne: "'' Ws@EXAMPLE.com '' \<noteq> []" by simp
  have asc: "is_ascii '' Ws@EXAMPLE.com ''" by code_simp
  have str: "strip '' Ws@EXAMPLE.com '' = ''Ws'' @ ''@'' @ ''EXAMPLE.com''" by code_simp
  have low: "lower ''EXAMPLE.com'' = ''example.com''" by code_simp
  from create_user_normalizes_email
         [OF ne asc run, THEN conjunct1, rule_format, of "''Ws''" "''EXAMPLE.com''"] str
  have "email ?u = ''Ws'' @ ''@'' @ lower ''EXAMPLE.com''" by simp
  with low have "email ?u = ''Ws@example.com''" by simp
  with run show ?thesis by simp
qed

text \<open>
  C7, as the claim states it, fails: the email \<open>' Ws@EXAMPLE.com '\<close>, a blank on either side,
  is stored as \<open>'Ws@example.com'\<close>, which is not the input with only its domain lower-cased
  (that would keep both blanks), and not of the input's length.
\<close>

theorem create_user_normalizes_email_counterexample:
  "map_sum id email
     (fst (create_user demo_make_password empty_user_db (Some ('' Ws'' @ ''@'' @ ''EXAMPLE.com ''))
             (Some ''testpass123'') no_extra_fields))
     = Inr ''Ws@example.com''
   \<and> ''Ws@example.com'' \<noteq> '' Ws'' @ ''@'' @ lower ''EXAMPLE.com ''
   \<and> length ''Ws@example.com'' \<noteq> length ('' Ws'' @ ''@'' @ ''EXAMPLE.com '')"
  by code_simp

lemma authenticate_unknown:
  assumes "\<not> list_ex (\<lambda>u. email u = e) (user_rows db)"
  shows "authenticate check_password db (Some e) (Some p) = None"
proof -
  have "find (\<lambda>u. email u = e) (user_rows db) = None"
    using assms by (simp add: find_None_iff list_ex_iff)
  then show ?thesis by (simp add: authenticate_def)
qed

lemma validate_error:
  "AuthTokenSerializer_validate check_password db a = Inl x \<Longrightarrow>
     x = ValidationError ''Unable to authenticate with provided credentials.'' ''authorization''"
  by (auto simp: AuthTokenSerializer_validate_def Let_def split: option.splits)

text \<open>
  C8: a login with an email that no stored user has and a login with a stored user's email
  and a password that does not verify against the stored hash get the same response from
  \<open>validate\<close>, the one \<open>ValidationError\<close> of code "authorization"; and any two failures of
  \<open>validate\<close> carry the same error, whatever the table and the inputs.
\<close>

theorem validate_failure_uniform:
  assumes unknown: "\<not> list_ex (\<lambda>u. email u = e1) (user_rows db)"
      and known: "find (\<lambda>u. email u = e2) (user_rows db) = Some u"
      and mismatch: "\<not> check_password p2 (password u)"
  shows "AuthTokenSerializer_validate check_password db
             \<lparr>a_email = Some e1, a_password = Some p1, a_user = None\<rparr>
           = AuthTokenSerializer_validate check_password db
             \<lparr>a_email = Some e2, a_password = Some p2, a_user = None\<rparr>
       \<and> AuthTokenSerializer_validate check_password db
             \<lparr>a_email = Some e2, a_password = Some p2, a_user = None\<rparr>
           = Inl (ValidationError ''Unable to authenticate with provided credentials.''
                    ''authorization'')
       \<and> (\<forall>db1 db2 a1 a2 x1 x2.
             AuthTokenSerializer_validate check_password db1 a1 = Inl x1
             \<and> AuthTokenSerializer_validate check_password db2 a2 = Inl x2 \<longrightarrow> x1 = x2)"
proof -
  have 1: "authenticate check_password db (Some e1) (Some p1) = None"
    using unknown by (rule authenticate_unknown)
  have 2: "authenticate check_password db (Some e2) (Some p2) = None"
    using known mismatch by (simp add: authenticate_def)
  have 3: "\<forall>db1 db2 a1 a2 x1 x2.
             AuthTokenSerializer_validate check_password db1 a1 = Inl x1
             \<and> AuthTokenSerializer_validate check_password db2 a2 = Inl x2 \<longrightarrow> x1 = x2"
    using validate_error by blast
  show ?thesis using 1 2 3 by (simp add: AuthTokenSerializer_validate_def)
qed

theorem validate_failure_uniform_witness:
  "AuthTokenSerializer_validate demo_check_password one_user_db
       \<lparr>a_email = Some ''nobody@example.com'', a_password = Some ''testpass123'', a_user = None\<rparr>
     = AuthTokenSerializer_validate demo_check_password one_user_db
       \<lparr>a_email = Some ''user@example.com'', a_password = Some ''badpass'', a_user = None\<rparr>"
proof -
  have unknown: "\<not> list_ex (\<lambda>u. email u = ''nobody@example.com'') (user_rows one_user_db)"
    by (simp add: one_user_db_def registered_user_def)
  have known: "find (\<lambda>u. email u = ''user@example.com'') (user_rows one_user_db) = Some registered_user"
    by (simp add: one_user_db_def registered_user_def)
  have mismatch: "\<not> demo_check_password ''badpass'' (password registered_user)"
    by (simp add: demo_check_password_def demo_make_password_def registered_user_def)
  from validate_failure_uniform
         [of "''nobody@example.com''" one_user_db "''user@example.com''" registered_user
             demo_check_password "''badpass''" "''testpass123''"]
       unknown known mismatch
  show ?thesis by simp
qed

lemma length_strip: "length (strip s) \<le> length s"
proof -
  have "length (dropWhile is_space (rev (dropWhile is_space s)))
          \<le> length (rev (dropWhile is_space s))"
    by (rule length_dropWhile_le)
  also have "\<dots> \<le> length s" by (simp add: length_dropWhile_le)
  finally show ?thesis by (simp add: strip_def)
qed

lemma CharField_min_length:
  "length data < n \<Longrightarrow> \<exists>code. CharField (Some n) mx data = Inl code"
  using length_strip[of data] by (auto simp: CharField_def Let_def)

text \<open>
  C10: when the data of a user-create or user-update request (with or without an instance,
  partial or not) holds a password shorter than 5 characters, \<open>UserSerializer\<close> raises a
  validation error that names the \<open>password\<close> field, and the user table is left as it was.
\<close>

theorem UserSerializer_short_password_rejected:
  assumes "d_password data = Some pw" and "length pw < 5"
  shows "\<exists>errs. UserSerializer_save make_password email_validator db instance partial data
                  = (Inl (ValidationErrors errs), db)
               \<and> ''password'' \<in> fst ` set errs"
proof -
  obtain code where c: "CharField (Some 5) (Some 128) pw = Inl code"
    using CharField_min_length[OF assms(2)] by blast
  have p: "run_field partial (CharField (Some 5) (Some 128)) (d_password data) = Inl code"
    using assms(1) c by (simp add: run_field_def)
  show ?thesis
    by (cases "run_field partial (EmailField email_validator db instance) (d_email data)";
        cases "run_field partial (CharField None (Some 255)) (d_name data)")
       (simp_all add: UserSerializer_save_def UserSerializer_run_validation_def p)
qed

theorem UserSerializer_short_password_rejected_witness:
  "UserSerializer_save demo_make_password (\<lambda>e. True) one_user_db None False
       \<lparr>d_email = Some ''test@example.com'', d_password = Some ''pw'', d_name = Some ''Test name''\<rparr>
     = (Inl (ValidationErrors [(''password'', ''min_length'')]), one_user_db)
   \<and> (\<exists>errs. UserSerializer_save demo_make_password (\<lambda>e. True) one_user_db (Some registered_user) True
                 \<lparr>d_email = None, d_password = Some ''abcd'', d_name = None\<rparr>
               = (Inl (ValidationErrors errs), one_user_db))"
proof -
  have "\<exists>errs. UserSerializer_save demo_make_password (\<lambda>e. True) one_user_db (Some registered_user) True
                 \<lparr>d_email = None, d_password = Some ''abcd'', d_name = None\<rparr>
               = (Inl (ValidationErrors errs), one_user_db) \<and> ''password'' \<in> fst ` set errs"
    by (rule UserSerializer_short_password_rejected[of _ "''abcd''"]) simp_all
  moreover have "UserSerializer_save demo_make_password (\<lambda>e. True) one_user_db None False
       \<lparr>d_email = Some ''test@example.com'', d_password = Some ''pw'', d_name = Some ''Test name''\<rparr>
     = (Inl (ValidationErrors [(''password'', ''min_length'')]), one_user_db)"
    by code_simp
  ultimately show ?thesis by blast
qed

section \<open>Properties of the views\<close>

lemma set_order_by_desc: "set (order_by_desc key rows) = set rows"
  by (simp add: order_by_desc_def)

lemma mset_order_by_desc: "mset (order_by_desc key rows) = mset rows"
  by (simp add: order_by_desc_def)

lemma sorted_order_by_desc: "sorted (rev (map key (order_by_desc key rows)))"
  by (simp add: order_by_desc_def rev_map)

text \<open>With distinct keys the order of the result depends on the rows only, not on their order.\<close>

lemma sort_key_unique:
  assumes d: "distinct (map key xs)" and m: "mset xs = mset ys"
  shows "sort_key key xs = sort_key key ys"
proof -
  have s: "set xs = set ys" using m by (rule mset_eq_setD)
  have "mset (map key xs) = mset (map key ys)" using m by (metis mset_map)
  then have d': "distinct (map key ys)" using d by (metis mset_eq_imp_distinct_iff)
  have "map key (sort_key key xs) = map key (sort_key key ys)"
  proof (rule sorted_distinct_set_unique)
    show "distinct (map key (sort_key key xs))" using d by (simp add: distinct_map)
    show "distinct (map key (sort_key key ys))" using d' by (simp add: distinct_map)
    show "set (map key (sort_key key xs)) = set (map key (sort_key key ys))" using s by simp
  qed simp_all
  moreover have "inj_on key (set (sort_key key xs) \<union> set (sort_key key ys))"
    using d s by (simp add: distinct_map)
  ultimately show "sort_key key xs = sort_key key ys"
    by (rule map_inj_on)
qed

lemma order_by_desc_unique:
  assumes d: "distinct (map key xs)" and m: "mset xs = mset ys"
  shows "order_by_desc key xs = order_by_desc key ys"
proof -
  have "distinct (map key (rev xs))" using d by (simp add: rev_map[symmetric])
  moreover have "mset (rev xs) = mset (rev ys)" using m by simp
  ultimately have "sort_key key (rev xs) = sort_key key (rev ys)"
    by (rule sort_key_unique)
  then show ?thesis by (simp add: order_by_desc_def)
qed

lemma get_object_in: "get_object ident qs k = Inr r \<Longrightarrow> r \<in> set qs \<and> ident r = k"
  by (auto simp: get_object_def find_Some_iff split: option.splits)

lemma set_RecipeViewSet_get_queryset:
  "set (RecipeViewSet_get_queryset rows u) = {x \<in> set rows. recipe_user x = u}"
  by (auto simp: RecipeViewSet_get_queryset_def set_order_by_desc)

lemma set_BaseRecipeAttrViewSet_get_queryset:
  "set (BaseRecipeAttrViewSet_get_queryset rows u) = {x \<in> set rows. attr_user x = u}"
  by (auto simp: BaseRecipeAttrViewSet_get_queryset_def set_order_by_desc)

lemma RecipeViewSet_get_queryset_other:
  "recipe_user r \<noteq> u \<Longrightarrow>
     RecipeViewSet_get_queryset (rows @ [r]) u = RecipeViewSet_get_queryset rows u"
  by (simp add: RecipeViewSet_get_queryset_def)

lemma BaseRecipeAttrViewSet_get_queryset_other:
  "attr_user a \<noteq> u \<Longrightarrow>
     BaseRecipeAttrViewSet_get_queryset (rows @ [a]) u = BaseRecipeAttrViewSet_get_queryset rows u"
  by (simp add: BaseRecipeAttrViewSet_get_queryset_def)

text \<open>
  C3: for distinct users A and B, what B lists holds exactly the rows B owns (recipes, tags,
  ingredients), an object B looks up by id is owned by B, and a recipe, tag or ingredient
  that A creates changes neither B's lists nor any of B's lookups.
\<close>

theorem queries_scoped_to_owner:
  assumes "A \<noteq> B" and "recipe_user r = A" and "attr_user t = A" and "attr_user i = A"
  shows "set (list_recipes db B) = {x \<in> set (recipe_rows db). recipe_user x = B}
       \<and> set (list_tags db B) = {x \<in> set (attr_rows (tag_registry db)). attr_user x = B}
       \<and> set (list_ingredients db B)
           = {x \<in> set (attr_rows (ingredient_registry db)). attr_user x = B}
       \<and> (\<forall>k x. retrieve_recipe db B k = Inr x \<longrightarrow>
             recipe_user x = B \<and> recipe_id x = k \<and> x \<in> set (recipe_rows db))
       \<and> (\<forall>k x. get_tag db B k = Inr x \<longrightarrow> attr_user x = B \<and> attr_id x = k)
       \<and> (\<forall>k x. get_ingredient db B k = Inr x \<longrightarrow> attr_user x = B \<and> attr_id x = k)
       \<and> list_recipes (add_recipe_row r db) B = list_recipes db B
       \<and> list_tags (add_tag_row t db) B = list_tags db B
       \<and> list_ingredients (add_ingredient_row i db) B = list_ingredients db B
       \<and> (\<forall>k. retrieve_recipe (add_recipe_row r db) B k = retrieve_recipe db B k)
       \<and> (\<forall>k. get_tag (add_tag_row t db) B k = get_tag db B k)
       \<and> (\<forall>k. get_ingredient (add_ingredient_row i db) B k = get_ingredient db B k)"
proof -
  have nr: "recipe_user r \<noteq> B" and nt: "attr_user t \<noteq> B" and ni: "attr_user i \<noteq> B"
    using assms by simp_all
  have l1: "set (list_recipes db B) = {x \<in> set (recipe_rows db). recipe_user x = B}"
    by (simp add: list_recipes_def set_RecipeViewSet_get_queryset)
  have l2: "set (list_tags db B) = {x \<in> set (attr_rows (tag_registry db)). attr_user x = B}"
    by (simp add: list_tags_def set_BaseRecipeAttrViewSet_get_queryset)
  have l3: "set (list_ingredients db B)
              = {x \<in> set (attr_rows (ingredient_registry db)). attr_user x = B}"
    by (simp add: list_ingredients_def set_BaseRecipeAttrViewSet_get_queryset)
  have g1: "\<forall>k x. retrieve_recipe db B k = Inr x \<longrightarrow>
              recipe_user x = B \<and> recipe_id x = k \<and> x \<in> set (recipe_rows db)"
    using get_object_in[of recipe_id "RecipeViewSet_get_queryset (recipe_rows db) B"]
    by (auto simp: retrieve_recipe_def set_RecipeViewSet_get_queryset)
  have g2: "\<forall>k x. get_tag db B k = Inr x \<longrightarrow> attr_user x = B \<and> attr_id x = k"
    using get_object_in[of attr_id "BaseRecipeAttrViewSet_get_queryset (attr_rows (tag_registry db)) B"]
    by (auto simp: get_tag_def set_BaseRecipeAttrViewSet_get_queryset)
  have g3: "\<forall>k x. get_ingredient db B k = Inr x \<longrightarrow> attr_user x = B \<and> attr_id x = k"
    using get_object_in[of attr_id
            "BaseRecipeAttrViewSet_get_queryset (attr_rows (ingredient_registry db)) B"]
    by (auto simp: get_ingredient_def set_BaseRecipeAttrViewSet_get_queryset)
  have a1: "list_recipes (add_recipe_row r db) B = list_recipes db B"
    by (simp add: list_recipes_def add_recipe_row_def RecipeViewSet_get_queryset_other[OF nr])
  have a2: "list_tags (add_tag_row t db) B = list_tags db B"
    by (simp add: list_tags_def add_tag_row_def add_attr_row_def
          BaseRecipeAttrViewSet_get_queryset_other[OF nt])
  have a3: "list_ingredients (add_ingredient_row i db) B = list_ingredients db B"
    by (simp add: list_ingredients_def add_ingredient_row_def add_attr_row_def
          BaseRecipeAttrViewSet_get_queryset_other[OF ni])
  have b1: "\<forall>k. retrieve_recipe (add_recipe_row r db) B k = retrieve_recipe db B k"
    by (simp add: retrieve_recipe_def add_recipe_row_def RecipeViewSet_get_queryset_other[OF nr])
  have b2: "\<forall>k. get_tag (add_tag_row t db) B k = get_tag db B k"
    by (simp add: get_tag_def add_tag_row_def add_attr_row_def
          BaseRecipeAttrViewSet_get_queryset_other[OF nt])
  have b3: "\<forall>k. get_ingredient (add_ingredient_row i db) B k = get_ingredient db B k"
    by (simp add: get_ingredient_def add_ingredient_row_def add_attr_row_def
          BaseRecipeAttrViewSet_get_queryset_other[OF ni])
  show ?thesis
    using l1 l2 l3 g1 g2 g3 a1 a2 a3 b1 b2 b3 by blast
qed

theorem queries_scoped_to_owner_witness:
  "list_recipes (add_recipe_row kale_curry two_users_db) 2 = [stew, soup]
   \<and> list_ingredients (add_ingredient_row kale two_users_db) 2 = [salt]
   \<and> list_tags (add_tag_row vanilla two_users_db) 2 = []
   \<and> retrieve_recipe two_users_db 2 1 = Inl NotFoundError"
proof -
  have h: "(1::nat) \<noteq> 2" "recipe_user kale_curry = 1" "attr_user vanilla = 1" "attr_user kale = 1"
    by (simp_all add: kale_curry_def vanilla_def kale_def)
  note t = queries_scoped_to_owner[OF h, of two_users_db]
  have r: "list_recipes two_users_db 2 = [stew, soup]" by code_simp
  have i: "list_ingredients two_users_db 2 = [salt]" by code_simp
  have g: "list_tags two_users_db 2 = []" by code_simp
  have n: "retrieve_recipe two_users_db 2 1 = Inl NotFoundError" by code_simp
  from t r i g n show ?thesis by simp
qed

text \<open>
  C4, as the code has it: the tag list and the ingredient list of a user hold exactly the rows
  that user owns, sorted by name in descending order (\<open>order_by('-name')\<close>).
\<close>

theorem attr_lists_sorted_descending:
  "sorted (rev (map attr_name (list_tags db u)))
   \<and> sorted (rev (map attr_name (list_ingredients db u)))
   \<and> mset (list_tags db u) = filter_mset (\<lambda>a. attr_user a = u) (mset (attr_rows (tag_registry db)))
   \<and> mset (list_ingredients db u)
       = filter_mset (\<lambda>a. attr_user a = u) (mset (attr_rows (ingredient_registry db)))"
  by (simp add: list_tags_def list_ingredients_def BaseRecipeAttrViewSet_get_queryset_def
        sorted_order_by_desc mset_order_by_desc)

theorem attr_lists_sorted_descending_witness:
  "list_ingredients two_users_db 1 = [vanilla, kale]
   \<and> sorted (rev (map attr_name (list_ingredients two_users_db 1)))"
proof -
  have "list_ingredients two_users_db 1 = [vanilla, kale]" by code_simp
  with attr_lists_sorted_descending[of two_users_db 1] show ?thesis by simp
qed

text \<open>
  C4, as the claim states it, fails: with the ingredients Kale and Vanilla of the test the
  list is Vanilla, Kale, which is not in ascending order of name.
\<close>

theorem attr_lists_ascending_counterexample:
  "\<not> sorted (map attr_name (list_ingredients two_users_db 1))"
  by code_simp

text \<open>
  C9: the recipe list of a user holds exactly the recipes that user owns, ordered by
  descending id; and, ids being distinct, any table that holds the same recipes of that user
  gives the same list, wherever and in whatever order the recipes of other users were inserted.
\<close>

theorem list_recipes_descending:
  "mset (list_recipes db u) = filter_mset (\<lambda>r. recipe_user r = u) (mset (recipe_rows db))
   \<and> sorted (rev (map recipe_id (list_recipes db u)))
   \<and> (distinct (map recipe_id (recipe_rows db))
        \<and> mset (filter (\<lambda>r. recipe_user r = u) (recipe_rows db'))
            = mset (filter (\<lambda>r. recipe_user r = u) (recipe_rows db))
      \<longrightarrow> list_recipes db' u = list_recipes db u)"
proof -
  have "list_recipes db' u = list_recipes db u"
    if d: "distinct (map recipe_id (recipe_rows db))"
    and m: "mset (filter (\<lambda>r. recipe_user r = u) (recipe_rows db'))
              = mset (filter (\<lambda>r. recipe_user r = u) (recipe_rows db))"
  proof -
    have "distinct (map recipe_id (filter (\<lambda>r. recipe_user r = u) (recipe_rows db)))"
      using d by (simp add: distinct_map_filter)
    from order_by_desc_unique[OF this m[symmetric]]
    show ?thesis by (simp add: list_recipes_def RecipeViewSet_get_queryset_def)
  qed
  then show ?thesis
    by (simp add: list_recipes_def RecipeViewSet_get_queryset_def sorted_order_by_desc
          mset_order_by_desc)
qed

theorem list_recipes_descending_witness:
  "list_recipes two_users_db 1 = [kale_curry, tacos]
   \<and> list_recipes (two_users_db\<lparr>recipe_rows := [stew, kale_curry, tacos, soup]\<rparr>) 1 = [kale_curry, tacos]
   \<and> map recipe_id (list_recipes two_users_db 1) = [3, 1]"
proof -
  have d: "distinct (map recipe_id (recipe_rows two_users_db))"
    by (simp add: two_users_db_def tacos_def soup_def kale_curry_def stew_def)
  have m: "mset (filter (\<lambda>r. recipe_user r = 1)
                   (recipe_rows (two_users_db\<lparr>recipe_rows := [stew, kale_curry, tacos, soup]\<rparr>)))
             = mset (filter (\<lambda>r. recipe_user r = 1) (recipe_rows two_users_db))"
    by (simp add: two_users_db_def tacos_def soup_def kale_curry_def stew_def)
  have l: "list_recipes two_users_db 1 = [kale_curry, tacos]" by code_simp
  have i: "map recipe_id [kale_curry, tacos] = [3, 1]" by (simp add: kale_curry_def tacos_def)
  from list_recipes_descending
         [of two_users_db 1 "two_users_db\<lparr>recipe_rows := [stew, kale_curry, tacos, soup]\<rparr>"]
       d m l i
  show ?thesis by simp
qed

section \<open>Properties of the recipe write pipeline\<close>

lemma find_append_eq:
  "find P (xs @ ys) = (case find P xs of Some x \<Rightarrow> Some x | None \<Rightarrow> find P ys)"
  by (induction xs) auto

lemma lookup_None: "lookup owner nm reg = None \<longleftrightarrow> nm \<notin> own_names owner reg"
  by (auto simp: lookup_def own_names_def find_None_iff)

lemma lookup_Some: "lookup owner nm reg = Some a \<Longrightarrow> a \<in> set (attr_rows reg) \<and> attr_user a = owner \<and> attr_name a = nm"
  by (auto simp: lookup_def find_Some_iff)

lemma lookup_extend:
  "lookup owner nm reg = Some a \<Longrightarrow> attr_rows reg' = attr_rows reg @ new \<Longrightarrow> lookup owner nm reg' = Some a"
  by (simp add: lookup_def find_append_eq)

lemma get_or_create_one_found:
  "nm \<in> own_names owner reg \<Longrightarrow> get_or_create_one owner nm reg = (a, reg') \<Longrightarrow> reg' = reg \<and> lookup owner nm reg = Some a"
  by (auto simp: get_or_create_one_def lookup_None split: option.splits)

lemma get_or_create_one_new:
  "nm \<notin> own_names owner reg \<Longrightarrow> get_or_create_one owner nm reg = (a, reg') \<Longrightarrow>
     a = \<lparr>attr_id = attr_next_id reg, attr_name = nm, attr_user = owner\<rparr>
     \<and> attr_rows reg' = attr_rows reg @ [a] \<and> attr_next_id reg' = Suc (attr_next_id reg)
     \<and> lookup owner nm reg' = Some a"
  using lookup_None[of owner nm reg]
  by (auto simp: get_or_create_one_def Let_def lookup_def find_append_eq split: option.splits)

lemma own_names_append:
  "attr_rows reg' = attr_rows reg @ new \<Longrightarrow>
     own_names owner reg' = own_names owner reg \<union> attr_name ` {a \<in> set new. attr_user a = owner}"
  by (auto simp: own_names_def)

lemma get_or_create_rows:
  "get_or_create owner names reg attached = (attached', reg') \<Longrightarrow>
     \<exists>new. attr_rows reg' = attr_rows reg @ new
          \<and> list_all (\<lambda>a. attr_user a = owner) new
          \<and> distinct (map attr_name new)
          \<and> set (map attr_name new) = set names - own_names owner reg"
proof (induction names arbitrary: reg attached)
  case Nil
  then show ?case by simp
next
  case (Cons nm names)
  obtain a reg1 where one: "get_or_create_one owner nm reg = (a, reg1)"
    by (cases "get_or_create_one owner nm reg")
  with Cons.prems have rest: "get_or_create owner names reg1 (insert (attr_id a) attached) = (attached', reg')"
    by simp
  from Cons.IH[OF rest] obtain new where new:
    "attr_rows reg' = attr_rows reg1 @ new" "list_all (\<lambda>a. attr_user a = owner) new"
    "distinct (map attr_name new)" "set (map attr_name new) = set names - own_names owner reg1"
    by blast
  show ?case
  proof (cases "nm \<in> own_names owner reg")
    case True
    with get_or_create_one_found[OF True one] new show ?thesis
      by (intro exI[of _ new]) auto
  next
    case False
    from get_or_create_one_new[OF False one] have
      a: "a = \<lparr>attr_id = attr_next_id reg, attr_name = nm, attr_user = owner\<rparr>"
      and r1: "attr_rows reg1 = attr_rows reg @ [a]" by simp_all
    have on: "own_names owner reg1 = insert nm (own_names owner reg)"
      using own_names_append[OF r1, of owner] a by auto
    show ?thesis
      using new a r1 on False by (intro exI[of _ "a # new"]) auto
  qed
qed

lemma get_or_create_attached:
  "get_or_create owner names reg attached = (attached', reg') \<Longrightarrow>
     attached' = attached \<union> {attr_id a | a nm. nm \<in> set names \<and> lookup owner nm reg' = Some a}"
proof (induction names arbitrary: reg attached)
  case Nil
  then show ?case by simp
next
  case (Cons nm names)
  obtain a reg1 where one: "get_or_create_one owner nm reg = (a, reg1)"
    by (cases "get_or_create_one owner nm reg")
  with Cons.prems have rest: "get_or_create owner names reg1 (insert (attr_id a) attached) = (attached', reg')"
    by simp
  have l1: "lookup owner nm reg1 = Some a"
    using get_or_create_one_found[OF _ one] get_or_create_one_new[OF _ one]
    by (cases "nm \<in> own_names owner reg") auto
  obtain new where "attr_rows reg' = attr_rows reg1 @ new"
    using get_or_create_rows[OF rest] by blast
  with l1 have l: "lookup owner nm reg' = Some a" by (rule lookup_extend)
  from Cons.IH[OF rest] l show ?case by auto
qed

lemma get_or_create_all_found:
  "get_or_create owner names reg attached = (attached', reg') \<Longrightarrow>
     set names \<subseteq> own_names owner reg \<Longrightarrow> reg' = reg"
proof (induction names arbitrary: reg attached)
  case Nil
  then show ?case by simp
next
  case (Cons nm names)
  obtain a reg1 where one: "get_or_create_one owner nm reg = (a, reg1)"
    by (cases "get_or_create_one owner nm reg")
  with Cons.prems have rest: "get_or_create owner names reg1 (insert (attr_id a) attached) = (attached', reg')"
    by simp
  from Cons.prems(2) have "nm \<in> own_names owner reg" by simp
  from get_or_create_one_found[OF this one] have "reg1 = reg" by simp
  with Cons.IH[OF rest] Cons.prems(2) show ?case by simp
qed

lemma get_or_create_count:
  assumes "get_or_create owner names reg attached = (attached', reg')"
  shows "length (filter (\<lambda>a. attr_user a = owner) (attr_rows reg'))
           = length (filter (\<lambda>a. attr_user a = owner) (attr_rows reg)) + card (set names - own_names owner reg)"
    and "filter (\<lambda>a. attr_user a \<noteq> owner) (attr_rows reg') = filter (\<lambda>a. attr_user a \<noteq> owner) (attr_rows reg)"
    and "own_names owner reg' = own_names owner reg \<union> set names"
proof -
  from get_or_create_rows[OF assms] obtain new where new:
    "attr_rows reg' = attr_rows reg @ new" "list_all (\<lambda>a. attr_user a = owner) new"
    "distinct (map attr_name new)" "set (map attr_name new) = set names - own_names owner reg"
    by blast
  have f: "filter (\<lambda>a. attr_user a = owner) new = new"
    using new(2) by (simp add: list_all_iff)
  have "card (set names - own_names owner reg) = length (map attr_name new)"
    using new(3,4) by (metis distinct_card)
  then show "length (filter (\<lambda>a. attr_user a = owner) (attr_rows reg'))
           = length (filter (\<lambda>a. attr_user a = owner) (attr_rows reg)) + card (set names - own_names owner reg)"
    using new(1) f by simp
  show "filter (\<lambda>a. attr_user a \<noteq> owner) (attr_rows reg') = filter (\<lambda>a. attr_user a \<noteq> owner) (attr_rows reg)"
    using new(1,2) by (simp add: list_all_iff)
  have "attr_name ` {a \<in> set new. attr_user a = owner} = set (map attr_name new)"
    using new(2) by (auto simp: list_all_iff)
  then show "own_names owner reg' = own_names owner reg \<union> set names"
    using own_names_append[OF new(1), of owner] new(4) by auto
qed

lemma create_recipe_ok:
  assumes "create_recipe db owner flds (Some names) ingredient_names = (Inr r, db')"
  shows "\<exists>ts. get_or_create owner names (tag_registry db) {} = (ts, tag_registry db') \<and> tags r = ts"
  using assms
  by (auto simp: create_recipe_def Let_def split: list.splits prod.splits option.splits)

text \<open>
  C1: when a recipe is created for a user with a list of tag names, the tag table grows by
  exactly one new row, owned by that user, for each distinct name the user had no tag of, and
  by nothing else; the recipe is attached to the user's tag of each name; and creating a second
  recipe for the same user with the same names adds no tag row and attaches the same tags.
\<close>

theorem create_recipe_tags_get_or_create:
  assumes first: "create_recipe db owner flds (Some names) ingredient_names = (Inr r, db')"
  shows "(\<exists>new. attr_rows (tag_registry db') = attr_rows (tag_registry db) @ new
            \<and> list_all (\<lambda>a. attr_user a = owner) new
            \<and> distinct (map attr_name new)
            \<and> set (map attr_name new) = set names - own_names owner (tag_registry db))
       \<and> tags r = {attr_id a | a nm. nm \<in> set names \<and> lookup owner nm (tag_registry db') = Some a}
       \<and> length (filter (\<lambda>a. attr_user a = owner) (attr_rows (tag_registry db')))
           = length (filter (\<lambda>a. attr_user a = owner) (attr_rows (tag_registry db)))
             + card (set names - own_names owner (tag_registry db))
       \<and> (\<forall>flds2 ingredient_names2 r2 db2.
             create_recipe db' owner flds2 (Some names) ingredient_names2 = (Inr r2, db2) \<longrightarrow>
             tag_registry db2 = tag_registry db' \<and> tags r2 = tags r)"
proof -
  from create_recipe_ok[OF first] obtain ts where
    g: "get_or_create owner names (tag_registry db) {} = (ts, tag_registry db')" and t: "tags r = ts"
    by blast
  have A: "\<exists>new. attr_rows (tag_registry db') = attr_rows (tag_registry db) @ new
            \<and> list_all (\<lambda>a. attr_user a = owner) new
            \<and> distinct (map attr_name new)
            \<and> set (map attr_name new) = set names - own_names owner (tag_registry db)"
    using g by (rule get_or_create_rows)
  have B: "tags r = {attr_id a | a nm. nm \<in> set names \<and> lookup owner nm (tag_registry db') = Some a}"
    using get_or_create_attached[OF g] t by simp
  have C: "length (filter (\<lambda>a. attr_user a = owner) (attr_rows (tag_registry db')))
           = length (filter (\<lambda>a. attr_user a = owner) (attr_rows (tag_registry db)))
             + card (set names - own_names owner (tag_registry db))"
    using g by (rule get_or_create_count(1))
  have sub: "set names \<subseteq> own_names owner (tag_registry db')"
    using get_or_create_count(3)[OF g] by simp
  have D: "tag_registry db2 = tag_registry db' \<and> tags r2 = tags r"
    if second: "create_recipe db' owner flds2 (Some names) ingredient_names2 = (Inr r2, db2)"
    for flds2 ingredient_names2 r2 db2
  proof -
    from create_recipe_ok[OF second] obtain ts2 where
      g2: "get_or_create owner names (tag_registry db') {} = (ts2, tag_registry db2)" and t2: "tags r2 = ts2"
      by blast
    have same: "tag_registry db2 = tag_registry db'"
      using get_or_create_all_found[OF g2 sub] .
    have "tags r2 = {attr_id a | a nm. nm \<in> set names \<and> lookup owner nm (tag_registry db2) = Some a}"
      using get_or_create_attached[OF g2] t2 by simp
    with same B show ?thesis by simp
  qed
  show ?thesis using A B C D by blast
qed


theorem create_recipe_tags_get_or_create_witness:
  "\<exists>r1 db1 r2 db2.
      create_recipe empty_recipe_db 1 tacos_fields (Some [''Vegan'', ''Dinner'']) None = (Inr r1, db1)
    \<and> create_recipe db1 1 soup_fields (Some [''Vegan'', ''Dinner'']) None = (Inr r2, db2)
    \<and> length (filter (\<lambda>a. attr_user a = 1) (attr_rows (tag_registry db2))) = 2
    \<and> tags r2 = tags r1"
proof -
  let ?tags = "\<lparr>attr_rows = [\<lparr>attr_id = 1, attr_name = ''Vegan'', attr_user = 1\<rparr>,
                               \<lparr>attr_id = 2, attr_name = ''Dinner'', attr_user = 1\<rparr>],
                  attr_next_id = 3\<rparr>"
  let ?r1 = "\<lparr>recipe_id = 1, recipe_user = 1, title = ''Cauliflower Tacos'', description = [],
              time_minutes = 60, price = 43 / 10, link = None, tags = {2, 1}, ingredients = {}\<rparr>"
  let ?r2 = "\<lparr>recipe_id = 2, recipe_user = 1, title = ''Vietnamese Soup'', description = [],
              time_minutes = 40, price = 51 / 20, link = None, tags = {2, 1}, ingredients = {}\<rparr>"
  let ?db1 = "\<lparr>tag_registry = ?tags,
               ingredient_registry = \<lparr>attr_rows = [], attr_next_id = 1\<rparr>,
               recipe_rows = [?r1], recipe_next_id = 2\<rparr>"
  let ?db2 = "\<lparr>tag_registry = ?tags,
               ingredient_registry = \<lparr>attr_rows = [], attr_next_id = 1\<rparr>,
               recipe_rows = [?r1, ?r2], recipe_next_id = 3\<rparr>"
  have run1: "create_recipe empty_recipe_db 1 tacos_fields (Some [''Vegan'', ''Dinner'']) None
                = (Inr ?r1, ?db1)"
    by code_simp
  have run2: "create_recipe ?db1 1 soup_fields (Some [''Vegan'', ''Dinner'']) None = (Inr ?r2, ?db2)"
    by code_simp
  note t = create_recipe_tags_get_or_create[OF run1]
  have none: "own_names 1 (tag_registry empty_recipe_db) = {}"
    by (simp add: own_names_def empty_recipe_db_def)
  have "length (filter (\<lambda>a. attr_user a = 1) (attr_rows (tag_registry ?db1)))
          = length (filter (\<lambda>a. attr_user a = 1) (attr_rows (tag_registry empty_recipe_db)))
            + card (set [''Vegan'', ''Dinner''] - own_names 1 (tag_registry empty_recipe_db))"
    using t by blast
  then have two: "length (filter (\<lambda>a. attr_user a = 1) (attr_rows (tag_registry ?db1))) = 2"
    by (simp add: none empty_recipe_db_def)
  have same: "tag_registry ?db2 = tag_registry ?db1 \<and> tags ?r2 = tags ?r1"
    using t run2 by blast
  from run1 run2 two same show ?thesis by simp
qed

lemma find_replaced:
  assumes "find P rows = Some r0" and "P r2" and "\<And>x. P x \<Longrightarrow> Q x"
  shows "find P (map (\<lambda>r. if Q r then r2 else r) rows) = Some r2"
  using assms by (induction rows) (auto split: if_splits)


text \<open>
  C2: a partial update of a recipe of the caller whose payload holds \<open>ingredients = []\<close>
  succeeds on valid scalar values, leaves the recipe with no ingredient attached, creates no
  ingredient row, and leaves every scalar field that is absent from the payload (title,
  price, description, time_minutes, link) as it was; the tags too when the payload has none.
\<close>

theorem update_recipe_ingredients_replaced:
  assumes found: "find (\<lambda>r. recipe_id r = rid \<and> recipe_user r = owner) (recipe_rows db) = Some r0"
      and valid: "range_errors (p_time_minutes pf) (p_price pf) = []"
  shows "\<exists>r db'. update_recipe db rid owner pf tag_names (Some []) = (Inr r, db')
           \<and> ingredients r = {}
           \<and> (p_title pf = None \<longrightarrow> title r = title r0)
           \<and> (p_price pf = None \<longrightarrow> price r = price r0)
           \<and> (p_description pf = None \<longrightarrow> description r = description r0)
           \<and> (p_time_minutes pf = None \<longrightarrow> time_minutes r = time_minutes r0)
           \<and> (p_link pf = None \<longrightarrow> link r = link r0)
           \<and> (tag_names = None \<longrightarrow> tags r = tags r0)
           \<and> recipe_id r = recipe_id r0 \<and> recipe_user r = recipe_user r0
           \<and> ingredient_registry db' = ingredient_registry db
           \<and> find (\<lambda>r. recipe_id r = rid \<and> recipe_user r = owner) (recipe_rows db') = Some r"
proof -
  obtain ts treg where t: "(case tag_names of None \<Rightarrow> (tags (apply_partial pf r0), tag_registry db)
                            | Some names \<Rightarrow> get_or_create owner names (tag_registry db) {}) = (ts, treg)"
    by (cases "(case tag_names of None \<Rightarrow> (tags (apply_partial pf r0), tag_registry db)
                            | Some names \<Rightarrow> get_or_create owner names (tag_registry db) {})")
  define r where "r = (apply_partial pf r0)\<lparr>tags := ts, ingredients := {}\<rparr>"
  define db' where "db' = db\<lparr>tag_registry := treg, ingredient_registry := ingredient_registry db,
       recipe_rows := map (\<lambda>x. if recipe_id x = rid then r else x) (recipe_rows db)\<rparr>"
  have r0: "recipe_id r0 = rid \<and> recipe_user r0 = owner"
    using found by (auto simp: find_Some_iff)
  have run: "update_recipe db rid owner pf tag_names (Some []) = (Inr r, db')"
    using found valid t by (simp add: update_recipe_def Let_def r_def db'_def)
  have ids: "recipe_id r = rid \<and> recipe_user r = owner"
    using r0 by (simp add: r_def apply_partial_def)
  have stored: "find (\<lambda>r. recipe_id r = rid \<and> recipe_user r = owner) (recipe_rows db') = Some r"
    unfolding db'_def using find_replaced[OF found, of r "\<lambda>x. recipe_id x = rid"] ids by simp
  have tg: "tag_names = None \<longrightarrow> tags r = tags r0"
    using t by (auto simp: r_def apply_partial_def)
  show ?thesis
    using run ids r0 stored tg
    by (intro exI[of _ r] exI[of _ db']) (simp add: r_def apply_partial_def db'_def)
qed

theorem update_recipe_ingredients_replaced_witness:
  "update_recipe two_users_db 1 1 no_fields None (Some [])
     = (Inr (tacos\<lparr>ingredients := {}\<rparr>),
        two_users_db\<lparr>recipe_rows := [tacos\<lparr>ingredients := {}\<rparr>, soup, kale_curry, stew]\<rparr>)
   \<and> ingredients tacos = {1, 2}
   \<and> (\<exists>r db'. update_recipe two_users_db 1 1 no_fields None (Some []) = (Inr r, db')
         \<and> ingredients r = {} \<and> title r = title tacos \<and> price r = price tacos)"
proof -
  have found: "find (\<lambda>r. recipe_id r = 1 \<and> recipe_user r = 1) (recipe_rows two_users_db) = Some tacos"
    by (simp add: two_users_db_def tacos_def)
  have valid: "range_errors (p_time_minutes no_fields) (p_price no_fields) = []"
    by (simp add: range_errors_def no_fields_def)
  have absent: "p_title no_fields = None" "p_price no_fields = None"
    by (simp_all add: no_fields_def)
  have run: "update_recipe two_users_db 1 1 no_fields None (Some [])
     = (Inr (tacos\<lparr>ingredients := {}\<rparr>),
        two_users_db\<lparr>recipe_rows := [tacos\<lparr>ingredients := {}\<rparr>, soup, kale_curry, stew]\<rparr>)"
    by code_simp
  have before: "ingredients tacos = {1, 2}" by (simp add: tacos_def)
  from update_recipe_ingredients_replaced[OF found valid, of None] absent
  have "\<exists>r db'. update_recipe two_users_db 1 1 no_fields None (Some []) = (Inr r, db')
         \<and> ingredients r = {} \<and> title r = title tacos \<and> price r = price tacos"
    by blast
  with run before show ?thesis by blast
qed

end
